theory Spec2Isabelle
  imports Complex_Main
begin

section \<open>Python values the two modules rely on\<close>

text \<open>
  Exceptions are values: every function of the source that can raise returns
  \<open>error + 'a\<close>, with \<open>Inl\<close> for the exception.  \<open>ValueError\<close> carries no message (no
  handler of the source reads it); \<open>ArgumentTypeError\<close> carries the text it is raised with.
\<close>

datatype error = ValueError | NameError | TypeError | AttributeError | OverflowError
  | IndexError | AxisError | ArgumentTypeError string

text \<open>
  Strings are \<open>char list\<close>; the model covers the one-byte characters, which is where the
  grammar of both parsers lives.  \<open>newline\<close> is the line feed that \<open>.\<close> and \<open>$\<close> of
  Python's \<open>re\<close> treat specially.
\<close>

definition newline :: char where
  "newline = CHR 0x0A"

definition is_digit :: "char \<Rightarrow> bool" where
  "is_digit c = (c \<in> set ''0123456789'')"

definition is_upper :: "char \<Rightarrow> bool" where
  "is_upper c = (c \<in> set ''ABCDEFGHIJKLMNOPQRSTUVWXYZ'')"

definition digit_val :: "char \<Rightarrow> nat" where
  "digit_val c = of_char c - 48"

definition is_space :: "char \<Rightarrow> bool" where
  "is_space c = (c \<in> set [CHR 0x09, CHR 0x0A, CHR 0x0B, CHR 0x0C, CHR 0x0D,
                             CHR 0x1C, CHR 0x1D, CHR 0x1E, CHR 0x1F, CHR '' ''])"

definition strip :: "string \<Rightarrow> string" where
  "strip s = rev (dropWhile is_space (rev (dropWhile is_space s)))"

text \<open>\<open>str.upper\<close> on one-byte text: the letters a to z move to A to Z.\<close>

definition upper_char :: "char \<Rightarrow> char" where
  "upper_char c = (case map_of (zip ''abcdefghijklmnopqrstuvwxyz''
                                     ''ABCDEFGHIJKLMNOPQRSTUVWXYZ'') c of
                     Some u \<Rightarrow> u | None \<Rightarrow> c)"

definition upper :: "string \<Rightarrow> string" where
  "upper s = map upper_char s"

text \<open>
  \<open>int(s)\<close> for a string: surrounding white space is dropped, one sign is allowed, and the
  body is decimal digits, where single underscores may stand between digits.  Anything else
  raises \<open>ValueError\<close>.
\<close>

fun digits_tail :: "nat \<Rightarrow> string \<Rightarrow> nat option" where
  "digits_tail acc [] = Some acc"
| "digits_tail acc [c] = (if is_digit c then Some (10 * acc + digit_val c) else None)"
| "digits_tail acc (c # d # cs) =
     (if is_digit c then digits_tail (10 * acc + digit_val c) (d # cs)
      else if c = CHR ''_'' \<and> is_digit d then digits_tail (10 * acc + digit_val d) cs
      else None)"

definition digits_int :: "string \<Rightarrow> error + int" where
  "digits_int b = (case b of
       [] \<Rightarrow> Inl ValueError
     | c # cs \<Rightarrow>
         if is_digit c
         then (case digits_tail (digit_val c) cs of
                 Some n \<Rightarrow> Inr (int n)
               | None \<Rightarrow> Inl ValueError)
         else Inl ValueError)"

definition py_int :: "string \<Rightarrow> error + int" where
  "py_int s = (case strip s of
       [] \<Rightarrow> Inl ValueError
     | c # b \<Rightarrow>
         if c = CHR ''-'' then map_sum id uminus (digits_int b)
         else if c = CHR ''+'' then digits_int b
         else digits_int (c # b))"


text \<open>\<open>s.split(sep)\<close> for a one-character separator: never an empty list.\<close>

fun py_split :: "char \<Rightarrow> string \<Rightarrow> string list" where
  "py_split sep [] = [[]]"
| "py_split sep (c # cs) =
     (if c = sep then [] # py_split sep cs
      else (case py_split sep cs of
              t # ts \<Rightarrow> (c # t) # ts
            | [] \<Rightarrow> [[c]]))"

subsection \<open>The regular expressions of the source, with Python's backtracking\<close>

text \<open>
  The two patterns of \<open>parse_datetime.py\<close> use character classes, a greedy \<open>+\<close> on a
  class, greedy \<open>?\<close>, named groups and \<open>$\<close>.  \<open>rx_match\<close> is a backtracking matcher in
  continuation style: a greedy operator tries its longest alternative first and falls
  back when the rest of the pattern (the continuation) fails.  \<open>$\<close> (no MULTILINE flag)
  holds at the end of the string and before a line feed that ends the string.
\<close>

datatype rx = Cls "char \<Rightarrow> bool" | Plus "char \<Rightarrow> bool" | Cat rx rx | Opt rx
  | Group string rx | Dollar

type_synonym groups = "(string \<times> string) list"

fun plus_k :: "(char \<Rightarrow> bool) \<Rightarrow> string \<Rightarrow> (string \<Rightarrow> 'r option) \<Rightarrow> 'r option" where
  "plus_k p [] k = None"
| "plus_k p (c # cs) k =
     (if p c then (case plus_k p cs k of Some r \<Rightarrow> Some r | None \<Rightarrow> k cs) else None)"

fun rx_match ::
  "rx \<Rightarrow> string \<Rightarrow> groups \<Rightarrow> (string \<Rightarrow> groups \<Rightarrow> groups option) \<Rightarrow> groups option" where
  "rx_match (Cls p) s g k = (case s of [] \<Rightarrow> None | c # cs \<Rightarrow> if p c then k cs g else None)"
| "rx_match (Plus p) s g k = plus_k p s (\<lambda>s'. k s' g)"
| "rx_match (Cat a b) s g k = rx_match a s g (\<lambda>s' g'. rx_match b s' g' k)"
| "rx_match (Opt a) s g k = (case rx_match a s g k of Some r \<Rightarrow> Some r | None \<Rightarrow> k s g)"
| "rx_match (Group n a) s g k =
     rx_match a s g (\<lambda>s' g'. k s' ((n, take (length s - length s') s) # g'))"
| "rx_match Dollar s g k = (if s = [] \<or> s = [newline] then k s g else None)"

text \<open>\<open>re.match(r, s)\<close>: the groups of the first successful match at the start of \<open>s\<close>.\<close>

definition re_match :: "rx \<Rightarrow> string \<Rightarrow> groups option" where
  "re_match r s = rx_match r s [] (\<lambda>s' g. Some g)"

text \<open>\<open>match.group(n)\<close>: \<open>None\<close> for a group that took no part in the match.\<close>

definition group :: "groups \<Rightarrow> string \<Rightarrow> string option" where
  "group g n = map_of g n"

definition is_sep :: "char \<Rightarrow> bool" where
  "is_sep c = (c \<in> set ''T :'')"

definition not_sep :: "char \<Rightarrow> bool" where
  "not_sep c = (\<not> is_sep c)"

definition dot :: "char \<Rightarrow> bool" where
  "dot c = (c \<noteq> newline)"

section \<open>parse\_datetime.py\<close>

subsection \<open>\_parse\_partial\_datetime\<close>









definition is_int :: "string \<Rightarrow> bool" where
  "is_int t = (case py_int t of Inr v \<Rightarrow> True | Inl e \<Rightarrow> False)"


subsection \<open>\_parse\_datetime\_delta\<close>

record date_delta =
  year :: int
  month :: int
  day :: int
  hour :: int
  minute :: int
  second :: int

definition date_delta_creator :: "int \<Rightarrow> int \<Rightarrow> int \<Rightarrow> int \<Rightarrow> int \<Rightarrow> int \<Rightarrow> date_delta" where
  "date_delta_creator y mo d h mi s =
     \<lparr>year = y, month = mo, day = d, hour = h, minute = mi, second = s\<rparr>"

text \<open>
  \<open>r'(?:[P])(?P<date>[^T :]+)?(?:[T :])?(?P<time>.+)?$'\<close>, written in three steps
  from its end: \<open>(?P<time>.+)?$\<close>, then \<open>(?:[T :])?\<close> before it, then the whole.
\<close>

definition delta_time_rx :: rx where
  "delta_time_rx = Cat (Opt (Group ''time'' (Plus dot))) Dollar"

definition delta_sep_time_rx :: rx where
  "delta_sep_time_rx = Cat (Opt (Cls is_sep)) delta_time_rx"

definition delta_rx :: rx where
  "delta_rx =
     Cat (Cls (\<lambda>c. c = CHR ''P''))
       (Cat (Opt (Group ''date'' (Plus not_sep))) delta_sep_time_rx)"

text \<open>
  \<open>re.findall('[0-9]*[A-Z]', s)\<close>: the scan tries a match at each position in turn; a
  match is the longest run of digits followed by a capital letter, and the scan goes on
  after it.  Where no match starts, the scan moves one character on.
\<close>

function findall_tokens :: "string \<Rightarrow> string list" where
  "findall_tokens [] = []"
| "findall_tokens (c # cs) =
     (case dropWhile is_digit (c # cs) of
        u # rest \<Rightarrow>
          if is_upper u then (takeWhile is_digit (c # cs) @ [u]) # findall_tokens rest
          else findall_tokens cs
      | [] \<Rightarrow> findall_tokens cs)"
  by pat_completeness auto
termination
proof (relation "measure length")
  fix c cs u rest
  assume "dropWhile is_digit (c # cs) = u # rest"
  then have "length (u # rest) \<le> length (c # cs)"
    using length_dropWhile_le [of is_digit "c # cs"] by simp
  then show "(rest, c # cs) \<in> measure length" by simp
qed auto

text \<open>\<open>token[-1:]\<close> and \<open>token[:-1]\<close>.\<close>

definition unit_of :: "string \<Rightarrow> string" where
  "unit_of token = drop (length token - 1) token"

definition count_of :: "string \<Rightarrow> string" where
  "count_of token = butlast token"

text \<open>The two \<open>for\<close> loops, each over its three running values.\<close>

fun date_loop :: "string list \<Rightarrow> int \<times> int \<times> int \<Rightarrow> error + (int \<times> int \<times> int)" where
  "date_loop [] acc = Inr acc"
| "date_loop (token # tokens) (years, months, days) =
     (case py_int (count_of token) of
        Inl e \<Rightarrow> Inl e
      | Inr val \<Rightarrow>
          if unit_of token = ''Y'' then date_loop tokens (val, months, days)
          else if unit_of token = ''M'' then date_loop tokens (years, val, days)
          else if unit_of token = ''D'' then date_loop tokens (years, months, val)
          else Inl ValueError)"

fun time_loop :: "string list \<Rightarrow> int \<times> int \<times> int \<Rightarrow> error + (int \<times> int \<times> int)" where
  "time_loop [] acc = Inr acc"
| "time_loop (token # tokens) (hours, minutes, seconds) =
     (case py_int (count_of token) of
        Inl e \<Rightarrow> Inl e
      | Inr val \<Rightarrow>
          if unit_of token = ''H'' then time_loop tokens (val, minutes, seconds)
          else if unit_of token = ''M'' then time_loop tokens (hours, val, seconds)
          else if unit_of token = ''S'' then time_loop tokens (hours, minutes, val)
          else Inl ValueError)"

text \<open>
  The two halves the pattern cuts the upper-cased string into (a group that took no
  part counts as the empty string), or \<open>None\<close> when the pattern does not match.
\<close>

definition delta_halves :: "string \<Rightarrow> (string \<times> string) option" where
  "delta_halves dt_string =
     (case re_match delta_rx (upper dt_string) of
        None \<Rightarrow> None
      | Some m \<Rightarrow>
          Some (case group m ''date'' of Some d \<Rightarrow> d | None \<Rightarrow> '''',
                case group m ''time'' of Some t \<Rightarrow> t | None \<Rightarrow> ''''))"

definition u_parse_datetime_delta :: "string \<Rightarrow> error + date_delta" where
  "u_parse_datetime_delta dt_string =
     (case delta_halves dt_string of
        None \<Rightarrow> Inl ValueError
      | Some (date_string, time_string) \<Rightarrow>
          (case date_loop (findall_tokens date_string) (0, 0, 0) of
             Inl e \<Rightarrow> Inl e
           | Inr (years, months, days) \<Rightarrow>
               (case time_loop (findall_tokens time_string) (0, 0, 0) of
                  Inl e \<Rightarrow> Inl e
                | Inr (hours, minutes, seconds) \<Rightarrow>
                    Inr (date_delta_creator years months days hours minutes seconds))))"

subsection \<open>\_datetime\_delta\_to\_float\_days\<close>

text \<open>
  Python's floats are modelled by the real numbers: the arithmetic below is exact where
  the source rounds to the nearest double.

  \<open>datetime.timedelta(days=d, hours=h, minutes=m, seconds=s)\<close> with a float \<open>d\<close> and
  integers \<open>h\<close>, \<open>m\<close>, \<open>s\<close>: the value is kept as a whole number of microseconds, the
  fraction being rounded half to even, and a magnitude of more than 999999999 days raises
  \<open>OverflowError\<close>.  A \<open>timedelta\<close> is modelled by its total number of microseconds.
\<close>

definition round_half_even :: "real \<Rightarrow> int" where
  "round_half_even x =
     (let f = \<lfloor>x\<rfloor>; r = x - of_int f
      in if r < 1 / 2 then f else if 1 / 2 < r then f + 1 else if even f then f else f + 1)"

definition timedelta :: "real \<Rightarrow> int \<Rightarrow> int \<Rightarrow> int \<Rightarrow> error + int" where
  "timedelta days hours minutes seconds =
     (let us = round_half_even (days * 86400000000)
               + (hours * 3600 + minutes * 60 + seconds) * 1000000
      in if \<bar>us div 86400000000\<bar> > 999999999 then Inl OverflowError else Inr us)"

definition total_seconds :: "int \<Rightarrow> real" where
  "total_seconds us = of_int us / 1000000"

definition u_datetime_delta_to_float_days :: "date_delta \<Rightarrow> error + real" where
  "u_datetime_delta_to_float_days delta =
     (let sec = 1 / (24 * 60 * 60);
          days = of_int (day delta) + of_int (month delta) * (3652425 / 10000) / 12
                 + of_int (year delta) * (3652425 / 10000)
      in case timedelta days (hour delta) (minute delta) (second delta) of
           Inl e \<Rightarrow> Inl e
         | Inr td \<Rightarrow> Inr (total_seconds td * sec))"

definition parse_datetimestr_delta_to_float_days :: "string \<Rightarrow> error + real" where
  "parse_datetimestr_delta_to_float_days string =
     (case u_parse_datetime_delta string of
        Inl e \<Rightarrow> Inl e
      | Inr date_delta \<Rightarrow> u_datetime_delta_to_float_days date_delta)"

text \<open>
  The duration the source's formula describes, in days: the right-hand side of line 172
  plus the hours, minutes and seconds as fractions of a day.
\<close>

definition formula_days :: "date_delta \<Rightarrow> real" where
  "formula_days delta =
     of_int (day delta) + of_int (month delta) * (3652425 / 10000) / 12
     + of_int (year delta) * (3652425 / 10000)
     + (of_int (hour delta) * 3600 + of_int (minute delta) * 60 + of_int (second delta)) / 86400"

subsection \<open>parse\_as\_number\_or\_datetime and parse\_as\_number\_or\_partial\_datetime\<close>

text \<open>
  \<open>float\<close> and \<open>dateutil.parser.parse\<close> (behind \<open>_parse_datetime\<close>) are library code: they
  are parameters of the model, each returning its value or the exception it raises.
\<close>

record ('f, 'd) library =
  py_float :: "string \<Rightarrow> error + 'f"
  du_parse :: "string \<Rightarrow> error + 'd"

datatype ('f, 'd) pyval = PyNone | PyInt int | PyFloat 'f | PyDatetime 'd | PyDelta date_delta

definition u_parse_datetime :: "('f, 'd) library \<Rightarrow> string \<Rightarrow> error + 'd" where
  "u_parse_datetime lib s = du_parse lib s"

text \<open>\<open>try: body except ValueError: handler\<close>; any other exception of the body goes on.\<close>

definition except_ValueError :: "error + 'a \<Rightarrow> error + 'a \<Rightarrow> error + 'a" where
  "except_ValueError body handler = (case body of Inl ValueError \<Rightarrow> handler | r \<Rightarrow> r)"

definition not_a_valid_value :: "string \<Rightarrow> error" where
  "not_a_valid_value string =
     ArgumentTypeError ([CHR 0x27] @ string @ [CHR 0x27] @ '' is not a valid value.'')"

text \<open>
  Reading a variable: the names bound where line 200 runs are the parameter \<open>string\<close>,
  the local \<open>datetime\<close> and the module's imports and functions; the only one that holds a
  string is \<open>string\<close>.  A name that is not bound raises \<open>NameError\<close>.
\<close>

definition load_name :: "(string \<times> string) list \<Rightarrow> string \<Rightarrow> error + string" where
  "load_name scope n = (case map_of scope n of Some v \<Rightarrow> Inr v | None \<Rightarrow> Inl NameError)"

text \<open>
  In \<open>parse_as_number_or_datetime\<close>, line 209 unpacks the \<open>datetime\<close> object that
  \<open>_parse_datetime\<close> returns with \<open>*\<close>; a \<open>datetime\<close> is not iterable, which is a
  \<open>TypeError\<close>.
\<close>

definition parse_as_number_or_datetime ::
  "('f, 'd) library \<Rightarrow> string \<Rightarrow> error + ('f, 'd) pyval" where
  "parse_as_number_or_datetime lib string =
     (case load_name [(''string'', string)] ''in_string'' of
        Inl e \<Rightarrow> Inl e
      | Inr in_string \<Rightarrow>
          if in_string = ''None'' then Inr PyNone
          else
            except_ValueError (map_sum id PyInt (py_int string))
              (except_ValueError (map_sum id PyFloat (py_float lib string))
                (except_ValueError
                   (case u_parse_datetime lib string of
                      Inl e \<Rightarrow> Inl e
                    | Inr dt \<Rightarrow> Inl TypeError)
                   (Inl (not_a_valid_value string)))))"

definition parse_as_number_or_partial_datetime ::
  "('f, 'd) library \<Rightarrow> string \<Rightarrow> error + ('f, 'd) pyval" where
  "parse_as_number_or_partial_datetime lib string =
     except_ValueError (map_sum id PyInt (py_int string))
       (except_ValueError (map_sum id PyFloat (py_float lib string))
         (except_ValueError (map_sum id PyDatetime (u_parse_datetime lib string))
           (except_ValueError (map_sum id PyDelta (u_parse_datetime_delta string))
             (Inl (not_a_valid_value string)))))"

section \<open>gridded\_data.py: GriddedData.set\_longitude\_range\<close>

text \<open>
  Array elements are real numbers.  An array of any rank is a nest of lists, as in the
  literal \<open>np.array([[1, 2], [3, 4]])\<close>.
\<close>

datatype ndarray = Val real | Arr "ndarray list"

text \<open>
  \<open>np.roll(a, shift, 0)\<close> on the outermost axis: the element at \<open>i\<close> moves to
  \<open>(i + shift) mod n\<close>.
\<close>

definition roll :: "'a list \<Rightarrow> int \<Rightarrow> 'a list" where
  "roll a shift =
     (if a = [] then [] else rotate (nat ((- shift) mod int (length a))) a)"

text \<open>
  \<open>np.roll(a, shift, axis)\<close>; \<open>None\<close> stands for numpy's \<open>AxisError\<close> when the array
  has no such axis.
\<close>

fun np_roll :: "ndarray \<Rightarrow> int \<Rightarrow> nat \<Rightarrow> ndarray option" where
  "np_roll (Val x) shift axis = None"
| "np_roll (Arr xs) shift 0 = Some (Arr (roll xs shift))"
| "np_roll (Arr xs) shift (Suc axis) =
     map_option Arr (those (map (\<lambda>x. np_roll x shift axis) xs))"

text \<open>
  \<open>np.searchsorted(a, v)\<close> (side left) on an ascending array: the number of elements
  below \<open>v\<close>.  numpy defines the result for sorted arrays only.
\<close>

definition searchsorted :: "real list \<Rightarrow> real \<Rightarrow> nat" where
  "searchsorted a v = length (takeWhile (\<lambda>x. x < v) a)"

text \<open>
  A cube, as far as the method reads and writes it: the dimension coordinates in the order
  of \<open>self.dim_coords\<close> (one-dimensional points, and bounds as rows, one per point, when
  there are any), the auxiliary coordinates, each with the data dimensions it spans
  (\<open>self.coord_dims\<close>), and the data array.  The method takes the position of the longitude
  coordinate in \<open>self.dim_coords\<close> for its data axis, and so does the model.
\<close>

record coord =
  standard_name :: "string option"
  points :: "real list"
  bounds :: "real list list option"

record aux_coord =
  aux_standard_name :: "string option"
  aux_points :: ndarray

record gridded_data =
  dim_coords :: "coord list"
  aux_coords :: "(aux_coord \<times> nat list) list"
  data :: ndarray

datatype any_coord = DimCoord coord | AuxCoord aux_coord

fun name_of :: "any_coord \<Rightarrow> string option" where
  "name_of (DimCoord c) = standard_name c"
| "name_of (AuxCoord a) = aux_standard_name a"

text \<open>\<open>self.coords(standard_name=name)\<close>: dimension coordinates first.\<close>

definition coords :: "gridded_data \<Rightarrow> string \<Rightarrow> any_coord list" where
  "coords self name =
     filter (\<lambda>c. name_of c = Some name)
       (map DimCoord (dim_coords self) @ map (\<lambda>(a, dims). AuxCoord a) (aux_coords self))"

text \<open>\<open>xs.index(x)\<close>: the first position, \<open>None\<close> for Python's \<open>ValueError\<close>.\<close>

fun index_of :: "'a list \<Rightarrow> 'a \<Rightarrow> nat option" where
  "index_of [] x = None"
| "index_of (y # ys) x = (if y = x then Some 0 else map_option Suc (index_of ys x))"

fun dim_index :: "gridded_data \<Rightarrow> any_coord \<Rightarrow> nat option" where
  "dim_index self (DimCoord c) = index_of (dim_coords self) c"
| "dim_index self (AuxCoord a) = None"

text \<open>
  \<open>a[mask] += delta\<close> for a Boolean mask over the first axis: on points, and on the rows
  of the bounds (\<open>IndexError\<close> when the mask and the rows differ in number).
\<close>

definition add_where :: "bool list \<Rightarrow> real \<Rightarrow> real list \<Rightarrow> real list" where
  "add_where sel delta a = map (\<lambda>(b, x). if b then x + delta else x) (zip sel a)"

definition add_where_rows :: "bool list \<Rightarrow> real \<Rightarrow> real list list \<Rightarrow> error + real list list" where
  "add_where_rows sel delta rows =
     (if length sel \<noteq> length rows then Inl IndexError
      else Inr (map (\<lambda>(b, row). if b then map (\<lambda>x. x + delta) row else row) (zip sel rows)))"

text \<open>The loop over \<open>self.aux_coords\<close>, lines 238 to 246.\<close>

fun roll_aux_coords ::
  "(aux_coord \<times> nat list) list \<Rightarrow> int \<Rightarrow> nat \<Rightarrow> error + (aux_coord \<times> nat list) list" where
  "roll_aux_coords [] shift lon_idx = Inr []"
| "roll_aux_coords ((aux_coord, dims) # rest) shift lon_idx =
     (case (if lon_idx \<in> set dims
            then (case index_of dims lon_idx of
                    None \<Rightarrow> Inl ValueError
                  | Some axis \<Rightarrow>
                      (case np_roll (aux_points aux_coord) shift axis of
                         None \<Rightarrow> Inl AxisError
                       | Some new_points \<Rightarrow> Inr (aux_coord\<lparr>aux_points := new_points\<rparr>)))
            else Inr aux_coord) of
        Inl e \<Rightarrow> Inl e
      | Inr a \<Rightarrow>
          (case roll_aux_coords rest shift lon_idx of
             Inl e \<Rightarrow> Inl e
           | Inr r \<Rightarrow> Inr ((a, dims) # r)))"

text \<open>
  Lines 205 to 235: the shift, the new points and the new bounds (\<open>None\<close> where the source
  leaves them \<open>None\<close>).
\<close>

definition new_longitude ::
  "coord \<Rightarrow> real \<Rightarrow> error + (int \<times> real list option \<times> real list list option)" where
  "new_longitude lon_coord range_start =
     (let roll_bounds = (case bounds lon_coord of None \<Rightarrow> False | Some b \<Rightarrow> concat b \<noteq> []);
          idx1 = searchsorted (points lon_coord) range_start;
          idx2 = searchsorted (points lon_coord) (range_start + 360);
          n = length (points lon_coord)
      in if 0 < idx1 \<and> idx1 < n then
           (let shift = - int idx1;
                lon_min = points lon_coord ! idx1;
                rolled = roll (points lon_coord) shift;
                indices_to_shift_value_of = map (\<lambda>p. p < lon_min) rolled;
                new_lon_points = add_where indices_to_shift_value_of 360 rolled
            in if roll_bounds then
                 (case add_where_rows indices_to_shift_value_of 360
                          (roll (the (bounds lon_coord)) shift) of
                    Inl e \<Rightarrow> Inl e
                  | Inr new_lon_bounds \<Rightarrow> Inr (shift, Some new_lon_points, Some new_lon_bounds))
               else Inr (shift, Some new_lon_points, None))
         else if 0 < idx2 \<and> idx2 < n then
           (let shift = int n - int idx2;
                lon_max = points lon_coord ! idx2;
                rolled = roll (points lon_coord) shift;
                indices_to_shift_value_of = map (\<lambda>p. p \<ge> lon_max) rolled;
                new_lon_points = add_where indices_to_shift_value_of (- 360) rolled
            in if roll_bounds then
                 (case add_where_rows indices_to_shift_value_of (- 360)
                          (roll (the (bounds lon_coord)) shift) of
                    Inl e \<Rightarrow> Inl e
                  | Inr new_lon_bounds \<Rightarrow> Inr (shift, Some new_lon_points, Some new_lon_bounds))
               else Inr (shift, Some new_lon_points, None))
         else Inr (0, None, None))"

text \<open>Lines 236 to 253: what the method does when the shift is not zero.\<close>

definition apply_shift ::
  "gridded_data \<Rightarrow> nat \<Rightarrow> int \<Rightarrow> real list option \<Rightarrow> real list list option \<Rightarrow>
   error + gridded_data" where
  "apply_shift self lon_idx shift new_lon_points new_lon_bounds =
     (case roll_aux_coords (aux_coords self) shift lon_idx of
        Inl e \<Rightarrow> Inl e
      | Inr new_aux \<Rightarrow>
          (case np_roll (data self) shift lon_idx of
             None \<Rightarrow> Inl AxisError
           | Some new_data \<Rightarrow>
               (case new_lon_points of
                  None \<Rightarrow> Inl TypeError
                | Some pts \<Rightarrow>
                    (let c = dim_coords self ! lon_idx;
                         c1 = c\<lparr>points := pts\<rparr>;
                         c2 = (case new_lon_bounds of
                                 Some b \<Rightarrow> c1\<lparr>bounds := Some b\<rparr>
                               | None \<Rightarrow> c1)
                     in Inr (self\<lparr>dim_coords := (dim_coords self)[lon_idx := c2],
                                  aux_coords := new_aux, data := new_data\<rparr>)))))"

definition set_longitude_range :: "gridded_data \<Rightarrow> real \<Rightarrow> error + gridded_data" where
  "set_longitude_range self range_start =
     (case coords self ''longitude'' of
        [] \<Rightarrow> Inr self
      | lon_coord # others \<Rightarrow>
          (case dim_index self lon_coord of
             None \<Rightarrow> Inl ValueError
           | Some lon_idx \<Rightarrow>
               (case new_longitude (dim_coords self ! lon_idx) range_start of
                  Inl e \<Rightarrow> Inl e
                | Inr (shift, new_lon_points, new_lon_bounds) \<Rightarrow>
                    if shift \<noteq> 0
                    then apply_shift self lon_idx shift new_lon_points new_lon_bounds
                    else Inr self)))"

section \<open>Concrete inputs\<close>

text \<open>Cubes used to run the method: a latitude axis alone, and latitude by longitude.\<close>

definition latitude2 :: coord where
  "latitude2 = \<lparr>standard_name = Some ''latitude'', points = [0, 1], bounds = None\<rparr>"

definition cube_without_longitude :: gridded_data where
  "cube_without_longitude =
     \<lparr>dim_coords = [latitude2], aux_coords = [], data = Arr [Val 7, Val 8]\<rparr>"

definition longitude_0_to_270 :: coord where
  "longitude_0_to_270 =
     \<lparr>standard_name = Some ''longitude'', points = [0, 90, 180, 270],
      bounds = Some [[-45, 45], [45, 135], [135, 225], [225, 315]]\<rparr>"

definition cube_in_range :: gridded_data where
  "cube_in_range =
     \<lparr>dim_coords = [latitude2, longitude_0_to_270],
      aux_coords = [(\<lparr>aux_standard_name = Some ''surface_altitude'',
                      aux_points = Arr [Val 10, Val 20, Val 30, Val 40]\<rparr>, [1])],
      data = Arr [Arr [Val 1, Val 2, Val 3, Val 4], Arr [Val 5, Val 6, Val 7, Val 8]]\<rparr>"

definition longitude_west :: coord where
  "longitude_west =
     \<lparr>standard_name = Some ''longitude'', points = [-170, -10], bounds = None\<rparr>"

definition cube_west :: gridded_data where
  "cube_west =
     \<lparr>dim_coords = [longitude_west], aux_coords = [], data = Arr [Val 1, Val 2]\<rparr>"




text \<open>
  For stating results: the value of a token that \<open>int\<close> accepts, and the tokens that hold
  none of the characters the parser cuts at (\<open>T\<close>, space, colon, hyphen) and no line feed.
\<close>

definition int_of :: "string \<Rightarrow> int" where
  "int_of t = (case py_int t of Inr v \<Rightarrow> v | Inl e \<Rightarrow> 0)"


text \<open>
  For stating results about the duration parser.  A token of the date half is malformed
  when \<open>int\<close> rejects what stands before its last character (there are no digits) or its
  last character is none of \<open>Y\<close>, \<open>M\<close>, \<open>D\<close>; likewise \<open>H\<close>, \<open>M\<close>, \<open>S\<close> in the time half.
  \<open>last_count u tokens dflt\<close> is the count of the last token with unit \<open>u\<close>, or \<open>dflt\<close>
  when there is none.
\<close>

definition bad_date_token :: "string \<Rightarrow> bool" where
  "bad_date_token t = (\<not> is_int (count_of t) \<or> unit_of t \<notin> {''Y'', ''M'', ''D''})"

definition bad_time_token :: "string \<Rightarrow> bool" where
  "bad_time_token t = (\<not> is_int (count_of t) \<or> unit_of t \<notin> {''H'', ''M'', ''S''})"

definition last_count :: "string \<Rightarrow> string list \<Rightarrow> int \<Rightarrow> int" where
  "last_count u tokens dflt =
     (let ts = filter (\<lambda>t. unit_of t = u) tokens
      in if ts = [] then dflt else int_of (count_of (last ts)))"





definition zero_delta :: date_delta where
  "zero_delta = \<lparr>year = 0, month = 0, day = 0, hour = 0, minute = 0, second = 0\<rparr>"

text \<open>The duration of a delta in whole microseconds, by the source's conversion factors.\<close>

definition total_us :: "date_delta \<Rightarrow> int" where
  "total_us delta =
     day delta * 86400000000 + month delta * 2629746000000 + year delta * 31556952000000
     + (hour delta * 3600 + minute delta * 60 + second delta) * 1000000"

section \<open>Facts about the library models\<close>

lemma py_split_not_Nil: "py_split sep s \<noteq> []"
  by (induction s) (auto split: list.splits)

section \<open>set\_longitude\_range\<close>

subsection \<open>Finding the longitude coordinate\<close>

lemma index_of_append_first:
  "x \<notin> set pre \<Longrightarrow> index_of (pre @ x # post) x = Some (length pre)"
  by (induction pre) auto

lemma filter_name_Nil:
  "\<forall>x\<in>set pre. standard_name x \<noteq> Some n \<Longrightarrow>
   filter (\<lambda>c. name_of c = Some n) (map DimCoord pre) = []"
  by (induction pre) auto

lemma coords_first_dim:
  assumes "dim_coords self = pre @ c # post"
    and "\<forall>x\<in>set pre. standard_name x \<noteq> Some n"
    and "standard_name c = Some n"
  shows "\<exists>others. coords self n = DimCoord c # others"
  using assms by (simp add: coords_def filter_name_Nil)

text \<open>
  When the first coordinate named longitude is the dimension coordinate \<open>c\<close> at position
  \<open>length pre\<close>, the method works on \<open>c\<close> and on that axis.
\<close>

lemma set_longitude_range_dim:
  assumes dims: "dim_coords self = pre @ c # post"
    and pre: "\<forall>x\<in>set pre. standard_name x \<noteq> Some ''longitude''"
    and nm: "standard_name c = Some ''longitude''"
  shows "set_longitude_range self range_start =
     (case new_longitude c range_start of
        Inl e \<Rightarrow> Inl e
      | Inr (shift, new_lon_points, new_lon_bounds) \<Rightarrow>
          if shift \<noteq> 0
          then apply_shift self (length pre) shift new_lon_points new_lon_bounds
          else Inr self)"
proof -
  obtain others where co: "coords self ''longitude'' = DimCoord c # others"
    using coords_first_dim [OF dims pre nm] by blast
  have "c \<notin> set pre" using pre nm by auto
  then have idx: "index_of (dim_coords self) c = Some (length pre)"
    by (simp add: dims index_of_append_first)
  have nth: "dim_coords self ! length pre = c" by (simp add: dims)
  show ?thesis by (simp add: set_longitude_range_def co idx nth)
qed

lemma searchsorted_all_ge: "\<forall>p\<in>set a. v \<le> p \<Longrightarrow> searchsorted a v = 0"
  by (cases a) (auto simp: searchsorted_def)

lemma searchsorted_all_less: "\<forall>p\<in>set a. p < v \<Longrightarrow> searchsorted a v = length a"
  by (simp add: searchsorted_def takeWhile_eq_all_conv[THEN iffD2])

lemma new_longitude_in_range:
  assumes "\<forall>p\<in>set (points c). range_start \<le> p \<and> p < range_start + 360"
  shows "new_longitude c range_start = Inr (0, None, None)"
proof -
  have 1: "searchsorted (points c) range_start = 0"
    using assms by (intro searchsorted_all_ge) auto
  have 2: "searchsorted (points c) (range_start + 360) = length (points c)"
    using assms by (intro searchsorted_all_less) auto
  show ?thesis by (simp add: new_longitude_def 1 2)
qed

subsection \<open>C3: a field already in range is left as it is\<close>

text \<open>
  C3.  Let the first coordinate named longitude be a dimension coordinate whose points
  ascend and all lie in \<open>range_start \<le> p < range_start + 360\<close>.  Then
  \<open>set_longitude_range(range_start)\<close> returns with the cube unchanged: the points and the
  bounds of every coordinate, the auxiliary coordinates and the data are what they were.
\<close>

theorem set_longitude_range_in_range_unchanged:
  assumes "dim_coords self = pre @ c # post"
    and "\<forall>x\<in>set pre. standard_name x \<noteq> Some ''longitude''"
    and "standard_name c = Some ''longitude''"
    and "sorted (points c)"
    and "\<forall>p\<in>set (points c). range_start \<le> p \<and> p < range_start + 360"
  shows "set_longitude_range self range_start = Inr self"
  using assms(5)
  by (simp add: set_longitude_range_dim [OF assms(1-3)] new_longitude_in_range)

theorem set_longitude_range_in_range_unchanged_witness:
  "set_longitude_range cube_in_range 0 = Inr cube_in_range
   \<and> points longitude_0_to_270 = [0, 90, 180, 270]"
  using set_longitude_range_in_range_unchanged
    [of cube_in_range "[latitude2]" longitude_0_to_270 "[]" 0]
  by (simp add: cube_in_range_def longitude_0_to_270_def latitude2_def)

subsection \<open>C8: no longitude coordinate, nothing done\<close>

text \<open>
  C8.  When no coordinate of the cube, dimension or auxiliary, has the standard name
  longitude, \<open>set_longitude_range\<close> returns normally and the cube is unchanged, whatever
  \<open>range_start\<close> is.
\<close>

theorem set_longitude_range_no_longitude:
  assumes "\<forall>c\<in>set (dim_coords self). standard_name c \<noteq> Some ''longitude''"
    and "\<forall>(a, dims)\<in>set (aux_coords self). aux_standard_name a \<noteq> Some ''longitude''"
  shows "set_longitude_range self range_start = Inr self"
proof -
  have "filter (\<lambda>c. name_of c = Some ''longitude'')
          (map (\<lambda>(a, dims). AuxCoord a) (aux_coords self)) = []"
    using assms(2) by (induction "aux_coords self") (auto simp: filter_empty_conv)
  then have "coords self ''longitude'' = []"
    using assms(1) by (simp add: coords_def filter_name_Nil)
  then show ?thesis by (simp add: set_longitude_range_def)
qed

theorem set_longitude_range_no_longitude_witness:
  "set_longitude_range cube_without_longitude 100 = Inr cube_without_longitude
   \<and> map standard_name (dim_coords cube_without_longitude) = [Some ''latitude'']
   \<and> aux_coords cube_without_longitude = []"
  using set_longitude_range_no_longitude [of cube_without_longitude 100]
  by (simp add: cube_without_longitude_def latitude2_def)

subsection \<open>C2: the four-point example\<close>






subsection \<open>C1: points outside the window on one side\<close>

text \<open>
  C1 says that after \<open>set_longitude_range(range_start)\<close> every longitude point lies in
  \<open>range_start \<le> p < range_start + 360\<close>, as the docstring of the method does.  For the
  ascending points \<open>[-170, -10]\<close> and \<open>range_start = 0\<close> both \<open>searchsorted\<close> indices
  equal the length, neither branch is taken, and the method returns with the points
  unchanged and below the window.
\<close>

theorem set_longitude_range_all_west:
  "set_longitude_range cube_west 0 = Inr cube_west
   \<and> points (dim_coords cube_west ! 0) = [- 170, - 10]
   \<and> \<not> list_all (\<lambda>p. 0 \<le> p \<and> p < 0 + 360) (points (dim_coords cube_west ! 0))"
  by (simp add: cube_west_def longitude_west_def set_longitude_range_def coords_def
      new_longitude_def searchsorted_def)

subsection \<open>Where the window is reached\<close>

lemma add_where_self:
  "add_where (map P xs) delta xs = map (\<lambda>x. if P x then x + delta else x) xs"
  by (induction xs) (simp_all add: add_where_def)

lemma set_roll: "set (roll xs shift) = set xs"
  by (simp add: roll_def)

lemma searchsorted_le_length: "searchsorted a v \<le> length a"
  by (simp add: searchsorted_def length_takeWhile_le)

lemma searchsorted_nth_ge:
  "searchsorted a v < length a \<Longrightarrow> v \<le> a ! searchsorted a v"
  unfolding searchsorted_def using nth_length_takeWhile [of "\<lambda>x. x < v" a] by auto

lemma searchsorted_pos_hd: "0 < searchsorted a v \<Longrightarrow> hd a < v"
  by (cases a) (auto simp: searchsorted_def split: if_splits)

lemma searchsorted_before:
  "i < searchsorted a v \<Longrightarrow> a ! i < v"
  unfolding searchsorted_def
  by (metis (mono_tags, lifting) nth_mem set_takeWhileD takeWhile_nth)

lemma sorted_below_pivot:
  assumes "sorted a" and "k < length a" and "x \<in> set a" and "x < a ! k"
  shows "\<exists>i<k. a ! i = x"
proof -
  from assms(3) obtain i where i: "i < length a" "a ! i = x" by (auto simp: in_set_conv_nth)
  have "i < k"
  proof (rule ccontr)
    assume "\<not> i < k"
    then have "a ! k \<le> a ! i" using assms(1) i(1) by (simp add: sorted_nth_mono)
    with assms(4) i(2) show False by simp
  qed
  with i show ?thesis by blast
qed

lemma searchsorted_zero_all_ge:
  assumes "sorted a" and "searchsorted a v = 0"
  shows "\<forall>x\<in>set a. v \<le> x"
proof (cases a)
  case Nil
  then show ?thesis by simp
next
  case (Cons h t)
  with assms(2) have "v \<le> h" by (simp add: searchsorted_def split: if_splits)
  moreover have "\<forall>x\<in>set a. h \<le> x" using assms(1) Cons by auto
  ultimately show ?thesis by fastforce
qed

lemma searchsorted_length_all_less:
  assumes "searchsorted a v = length a"
  shows "\<forall>x\<in>set a. x < v"
proof -
  have "length (takeWhile (\<lambda>x. x < v) a) + length (dropWhile (\<lambda>x. x < v) a) = length a"
    by (metis length_append takeWhile_dropWhile_id)
  with assms have "dropWhile (\<lambda>x. x < v) a = []" by (simp add: searchsorted_def)
  then show ?thesis by (simp add: dropWhile_eq_Nil_conv)
qed

lemma new_points_in_window:
  assumes srt: "sorted (points c)"
    and span: "\<forall>x\<in>set (points c). \<forall>y\<in>set (points c). y - x < 360"
    and win: "\<exists>q\<in>set (points c). range_start \<le> q \<and> q < range_start + 360"
    and res: "new_longitude c range_start = Inr (shift, new_lon_points, new_lon_bounds)"
  shows "(shift \<noteq> 0 \<longrightarrow>
           (\<exists>pts. new_lon_points = Some pts
              \<and> (\<forall>p\<in>set pts. range_start \<le> p \<and> p < range_start + 360)))
       \<and> (shift = 0 \<longrightarrow>
           (\<forall>p\<in>set (points c). range_start \<le> p \<and> p < range_start + 360))"
proof -
  let ?ps = "points c"
  let ?i1 = "searchsorted ?ps range_start"
  let ?i2 = "searchsorted ?ps (range_start + 360)"
  from win obtain q where q: "q \<in> set ?ps" "range_start \<le> q" "q < range_start + 360"
    by blast
  then have ne: "?ps \<noteq> []" by auto
  then have hd_in: "hd ?ps \<in> set ?ps" by simp
  have not_all_less: "?i1 \<noteq> length ?ps"
    using searchsorted_length_all_less [of ?ps range_start] q by fastforce
  consider (A) "0 < ?i1" "?i1 < length ?ps"
    | (B) "?i1 = 0" "0 < ?i2" "?i2 < length ?ps"
    | (C) "?i1 = 0" "\<not> (0 < ?i2 \<and> ?i2 < length ?ps)"
    using not_all_less searchsorted_le_length [of ?ps range_start] by fastforce
  then show ?thesis
  proof cases
    case A
    let ?lon_min = "?ps ! ?i1"
    let ?f = "\<lambda>x. if x < ?lon_min then x + 360 else x"
    from res A have sh: "shift = - int ?i1"
      and np: "new_lon_points = Some (map ?f (roll ?ps (- int ?i1)))"
      by (auto simp: new_longitude_def Let_def add_where_self split: if_splits sum.splits)
    have lo: "hd ?ps < range_start" using A(1) by (rule searchsorted_pos_hd)
    have pivot: "range_start \<le> ?lon_min" using A(2) by (rule searchsorted_nth_ge)
    have "range_start \<le> ?f x \<and> ?f x < range_start + 360" if x: "x \<in> set ?ps" for x
    proof (cases "x < ?lon_min")
      case True
      then obtain i where "i < ?i1" "?ps ! i = x"
        using sorted_below_pivot [OF srt A(2) x] by blast
      then have "x < range_start" using searchsorted_before by blast
      moreover have "q - x < 360" using span x q(1) by blast
      ultimately show ?thesis using True q(2) by simp
    next
      case False
      moreover have "x - hd ?ps < 360" using span x hd_in by blast
      ultimately show ?thesis using pivot lo by simp
    qed
    note fx = this
    have "\<forall>p\<in>set (map ?f (roll ?ps (- int ?i1))).
                 range_start \<le> p \<and> p < range_start + 360"
    proof
      fix p assume "p \<in> set (map ?f (roll ?ps (- int ?i1)))"
      then obtain x where x: "x \<in> set ?ps" and p: "p = ?f x"
        unfolding set_map set_roll by blast
      show "range_start \<le> p \<and> p < range_start + 360"
        unfolding p using fx [OF x] .
    qed
    with sh np A(1) show ?thesis by simp
  next
    case B
    let ?lon_max = "?ps ! ?i2"
    let ?f = "\<lambda>x. if ?lon_max \<le> x then x + - 360 else x"
    from res B have sh: "shift = int (length ?ps) - int ?i2"
      and np: "new_lon_points = Some (map ?f (roll ?ps (int (length ?ps) - int ?i2)))"
      by (auto simp: new_longitude_def Let_def add_where_self split: if_splits sum.splits)
    have ge: "\<forall>x\<in>set ?ps. range_start \<le> x"
      using srt B(1) by (rule searchsorted_zero_all_ge)
    have lo: "hd ?ps < range_start + 360" using B(2) by (rule searchsorted_pos_hd)
    have pivot: "range_start + 360 \<le> ?lon_max" using B(3) by (rule searchsorted_nth_ge)
    have "range_start \<le> ?f x \<and> ?f x < range_start + 360" if x: "x \<in> set ?ps" for x
    proof (cases "x < ?lon_max")
      case True
      then obtain i where "i < ?i2" "?ps ! i = x"
        using sorted_below_pivot [OF srt B(3) x] by blast
      then have "x < range_start + 360" using searchsorted_before by blast
      then show ?thesis using True ge x by simp
    next
      case False
      moreover have "x - hd ?ps < 360" using span x hd_in by blast
      ultimately show ?thesis using pivot lo by simp
    qed
    note fx = this
    have "\<forall>p\<in>set (map ?f (roll ?ps (int (length ?ps) - int ?i2))).
                 range_start \<le> p \<and> p < range_start + 360"
    proof
      fix p assume "p \<in> set (map ?f (roll ?ps (int (length ?ps) - int ?i2)))"
      then obtain x where x: "x \<in> set ?ps" and p: "p = ?f x"
        unfolding set_map set_roll by blast
      show "range_start \<le> p \<and> p < range_start + 360"
        unfolding p using fx [OF x] .
    qed
    with sh np B(3) show ?thesis by simp
  next
    case C
    from res C have sh: "shift = 0"
      by (auto simp: new_longitude_def Let_def split: if_splits sum.splits)
    have ge: "\<forall>x\<in>set ?ps. range_start \<le> x"
      using srt C(1) by (rule searchsorted_zero_all_ge)
    have "?i2 \<noteq> 0"
    proof
      assume "?i2 = 0"
      with srt have "\<forall>x\<in>set ?ps. range_start + 360 \<le> x"
        by (rule searchsorted_zero_all_ge)
      with q show False by fastforce
    qed
    with C(2) searchsorted_le_length [of ?ps "range_start + 360"]
    have "?i2 = length ?ps" by simp
    then have "\<forall>x\<in>set ?ps. x < range_start + 360"
      by (rule searchsorted_length_all_less)
    with ge sh show ?thesis by simp
  qed
qed

lemma apply_shift_points:
  assumes "apply_shift self lon_idx shift (Some pts) new_lon_bounds = Inr g'"
    and "lon_idx < length (dim_coords self)"
  shows "points (dim_coords g' ! lon_idx) = pts"
  using assms
  by (auto simp: apply_shift_def Let_def split: sum.splits option.splits)

text \<open>
  Where the method does reach the window: the points ascend, span less than 360, and at
  least one of them lies in the window already.  Then every point of the result lies in
  \<open>range_start \<le> p < range_start + 360\<close>.
\<close>

lemma set_longitude_range_in_window:
  assumes dims: "dim_coords self = pre @ c # post"
    and pre: "\<forall>x\<in>set pre. standard_name x \<noteq> Some ''longitude''"
    and nm: "standard_name c = Some ''longitude''"
    and srt: "sorted (points c)"
    and span: "\<forall>x\<in>set (points c). \<forall>y\<in>set (points c). y - x < 360"
    and win: "\<exists>q\<in>set (points c). range_start \<le> q \<and> q < range_start + 360"
    and res: "set_longitude_range self range_start = Inr g'"
  shows "\<forall>p\<in>set (points (dim_coords g' ! length pre)).
           range_start \<le> p \<and> p < range_start + 360"
proof (cases "new_longitude c range_start")
  case (Inl e)
  with res show ?thesis by (simp add: set_longitude_range_dim [OF dims pre nm])
next
  case (Inr t)
  obtain shift np nb where t: "t = (shift, np, nb)" by (cases t)
  with Inr have nl: "new_longitude c range_start = Inr (shift, np, nb)" by simp
  note w = new_points_in_window [OF srt span win nl]
  have len: "length pre < length (dim_coords self)" by (simp add: dims)
  show ?thesis
  proof (cases "shift = 0")
    case True
    with res nl have "g' = self" by (simp add: set_longitude_range_dim [OF dims pre nm])
    then have "dim_coords g' ! length pre = c" by (simp add: dims)
    with w True show ?thesis by simp
  next
    case False
    with w obtain pts where pts: "np = Some pts"
      "\<forall>p\<in>set pts. range_start \<le> p \<and> p < range_start + 360" by blast
    from res nl False have "apply_shift self (length pre) shift (Some pts) nb = Inr g'"
      by (simp add: set_longitude_range_dim [OF dims pre nm] pts(1))
    from apply_shift_points [OF this len] pts(2) show ?thesis by simp
  qed
qed

section \<open>The regular expression matcher\<close>

lemmas char_defs = is_digit_def digit_val_def is_space_def is_sep_def not_sep_def dot_def
  newline_def is_upper_def

lemmas int_defs = py_int_def strip_def digits_int_def






section \<open>\_parse\_partial\_datetime\<close>

lemma py_int_error: "py_int s = Inl e \<Longrightarrow> e = ValueError"
  by (auto simp: py_int_def digits_int_def map_sum_def split: list.splits if_splits option.splits sum.splits)










subsection \<open>C5: when the parser fails\<close>





subsection \<open>C6: the four shapes\<close>








section \<open>\_parse\_datetime\_delta\<close>

lemmas delta_defs = u_parse_datetime_delta_def delta_halves_def re_match_def delta_rx_def
  delta_sep_time_rx_def delta_time_rx_def group_def upper_def upper_char_def unit_of_def
  count_of_def date_delta_creator_def




lemma last_count_Cons_same:
  "unit_of t = u \<Longrightarrow> last_count u (t # ts) dflt = last_count u ts (int_of (count_of t))"
  by (simp add: last_count_def Let_def)

lemma last_count_Cons_other:
  "unit_of t \<noteq> u \<Longrightarrow> last_count u (t # ts) dflt = last_count u ts dflt"
  by (simp add: last_count_def Let_def)

lemma last_count_Nil: "last_count u [] dflt = dflt"
  by (simp add: last_count_def)

lemma date_loop_char:
  "date_loop tokens (y, m, d) =
     (if \<exists>t\<in>set tokens. bad_date_token t then Inl ValueError
      else Inr (last_count ''Y'' tokens y, last_count ''M'' tokens m, last_count ''D'' tokens d))"
proof (induction tokens arbitrary: y m d)
  case Nil
  then show ?case by (simp add: last_count_Nil)
next
  case (Cons t ts)
  show ?case
  proof (cases "py_int (count_of t)")
    case (Inl e)
    then have "e = ValueError" by (rule py_int_error)
    with Inl show ?thesis by (simp add: bad_date_token_def is_int_def)
  next
    case (Inr v)
    then have v: "int_of (count_of t) = v" "is_int (count_of t)"
      by (simp_all add: int_of_def is_int_def)
    consider "unit_of t = ''Y''" | "unit_of t = ''M''" | "unit_of t = ''D''"
      | "unit_of t \<notin> {''Y'', ''M'', ''D''}" by auto
    then show ?thesis
    proof cases
      case 1
      then show ?thesis
        by (auto simp add: Inr v Cons.IH bad_date_token_def last_count_Cons_same
            last_count_Cons_other)
    next
      case 2
      then show ?thesis
        by (auto simp add: Inr v Cons.IH bad_date_token_def last_count_Cons_same
            last_count_Cons_other)
    next
      case 3
      then show ?thesis
        by (auto simp add: Inr v Cons.IH bad_date_token_def last_count_Cons_same
            last_count_Cons_other)
    next
      case 4
      then show ?thesis by (simp add: Inr bad_date_token_def)
    qed
  qed
qed

lemma time_loop_char:
  "time_loop tokens (h, m, s) =
     (if \<exists>t\<in>set tokens. bad_time_token t then Inl ValueError
      else Inr (last_count ''H'' tokens h, last_count ''M'' tokens m, last_count ''S'' tokens s))"
proof (induction tokens arbitrary: h m s)
  case Nil
  then show ?case by (simp add: last_count_Nil)
next
  case (Cons t ts)
  show ?case
  proof (cases "py_int (count_of t)")
    case (Inl e)
    then have "e = ValueError" by (rule py_int_error)
    with Inl show ?thesis by (simp add: bad_time_token_def is_int_def)
  next
    case (Inr v)
    then have v: "int_of (count_of t) = v" "is_int (count_of t)"
      by (simp_all add: int_of_def is_int_def)
    consider "unit_of t = ''H''" | "unit_of t = ''M''" | "unit_of t = ''S''"
      | "unit_of t \<notin> {''H'', ''M'', ''S''}" by auto
    then show ?thesis
    proof cases
      case 1
      then show ?thesis
        by (auto simp add: Inr v Cons.IH bad_time_token_def last_count_Cons_same
            last_count_Cons_other)
    next
      case 2
      then show ?thesis
        by (auto simp add: Inr v Cons.IH bad_time_token_def last_count_Cons_same
            last_count_Cons_other)
    next
      case 3
      then show ?thesis
        by (auto simp add: Inr v Cons.IH bad_time_token_def last_count_Cons_same
            last_count_Cons_other)
    next
      case 4
      then show ?thesis by (simp add: Inr bad_time_token_def)
    qed
  qed
qed

lemma u_parse_datetime_delta_halves:
  "delta_halves s = Some (ds, ts) \<Longrightarrow>
   u_parse_datetime_delta s =
     (if (\<exists>t\<in>set (findall_tokens ds). bad_date_token t)
         \<or> (\<exists>t\<in>set (findall_tokens ts). bad_time_token t)
      then Inl ValueError
      else Inr \<lparr>year = last_count ''Y'' (findall_tokens ds) 0,
                month = last_count ''M'' (findall_tokens ds) 0,
                day = last_count ''D'' (findall_tokens ds) 0,
                hour = last_count ''H'' (findall_tokens ts) 0,
                minute = last_count ''M'' (findall_tokens ts) 0,
                second = last_count ''S'' (findall_tokens ts) 0\<rparr>)"
  by (simp add: u_parse_datetime_delta_def date_loop_char time_loop_char date_delta_creator_def)


subsection \<open>C9: repeated units and unknown units\<close>




subsection \<open>C10: the bare P\<close>













section \<open>\_datetime\_delta\_to\_float\_days\<close>

lemma round_half_even_of_int: "round_half_even (of_int k) = k"
  by (simp add: round_half_even_def)

lemma days_in_us:
  "(of_int d + of_int mo * (3652425 / 10000) / 12 + of_int y * (3652425 / 10000))
     * 86400000000 =
   (of_int (d * 86400000000 + mo * 2629746000000 + y * 31556952000000) :: real)"
  by (simp add: algebra_simps)

lemma timedelta_total_us:
  "timedelta (of_int (day delta) + of_int (month delta) * (3652425 / 10000) / 12
              + of_int (year delta) * (3652425 / 10000))
     (hour delta) (minute delta) (second delta) =
   (if \<bar>total_us delta div 86400000000\<bar> > 999999999 then Inl OverflowError
    else Inr (total_us delta))"
  unfolding timedelta_def days_in_us round_half_even_of_int
  by (simp add: total_us_def Let_def)

lemma formula_days_total_us: "formula_days delta = of_int (total_us delta) / 86400000000"
  by (simp add: formula_days_def total_us_def field_simps)

lemma floor_formula_days: "\<lfloor>formula_days delta\<rfloor> = total_us delta div 86400000000"
proof -
  have "\<lfloor>(of_int (total_us delta) :: real) / of_int 86400000000\<rfloor> =
        total_us delta div 86400000000"
    by (rule floor_divide_of_int_eq)
  then show ?thesis by (simp add: formula_days_total_us)
qed

lemma u_datetime_delta_to_float_days_char:
  "u_datetime_delta_to_float_days delta =
     (if \<bar>\<lfloor>formula_days delta\<rfloor>\<bar> > 999999999 then Inl OverflowError
      else Inr (formula_days delta))"
  unfolding u_datetime_delta_to_float_days_def Let_def timedelta_total_us floor_formula_days
  by (simp add: total_seconds_def formula_days_total_us)


subsection \<open>C7: the fractional days\<close>

text \<open>
  C7.  With real numbers for Python's floats, \<open>_datetime_delta_to_float_days\<close> returns
  \<open>day + month * 365.2425 / 12 + year * 365.2425\<close> plus the hours, minutes and seconds as
  seconds over 86400 (the microsecond rounding of \<open>timedelta\<close> changes nothing, the total
  being a whole number of seconds), unless the duration exceeds the 999999999 days a
  \<open>timedelta\<close> can hold, which raises \<open>OverflowError\<close>.  \<open>P1Y\<close> gives 365.2425 days,
  \<open>PT1H\<close> gives the delta with hour 1 and 1/24 of a day, and \<open>P0Y0M0DT0H0M0S\<close> gives the
  all-zero delta and 0 days.
\<close>

theorem float_days_formula:
  "u_datetime_delta_to_float_days delta =
     (if \<bar>\<lfloor>formula_days delta\<rfloor>\<bar> > 999999999 then Inl OverflowError
      else Inr (formula_days delta))
   \<and> parse_datetimestr_delta_to_float_days ''P1Y'' = Inr (3652425 / 10000)
   \<and> u_parse_datetime_delta ''PT1H'' =
       Inr \<lparr>year = 0, month = 0, day = 0, hour = 1, minute = 0, second = 0\<rparr>
   \<and> parse_datetimestr_delta_to_float_days ''PT1H'' = Inr (1 / 24)
   \<and> u_parse_datetime_delta ''P0Y0M0DT0H0M0S'' = Inr zero_delta
   \<and> parse_datetimestr_delta_to_float_days ''P0Y0M0DT0H0M0S'' = Inr 0"
proof -
  have y: "u_parse_datetime_delta ''P1Y'' =
      Inr \<lparr>year = 1, month = 0, day = 0, hour = 0, minute = 0, second = 0\<rparr>"
    by (simp add: delta_defs char_defs int_defs)
  have h: "u_parse_datetime_delta ''PT1H'' =
      Inr \<lparr>year = 0, month = 0, day = 0, hour = 1, minute = 0, second = 0\<rparr>"
    by (simp add: delta_defs char_defs int_defs)
  have z: "u_parse_datetime_delta ''P0Y0M0DT0H0M0S'' = Inr zero_delta"
    by (simp add: delta_defs char_defs int_defs zero_delta_def)
  have fy: "parse_datetimestr_delta_to_float_days ''P1Y'' = Inr (3652425 / 10000)"
    by (simp add: parse_datetimestr_delta_to_float_days_def y
        u_datetime_delta_to_float_days_char formula_days_def)
  have fh: "parse_datetimestr_delta_to_float_days ''PT1H'' = Inr (1 / 24)"
    by (simp add: parse_datetimestr_delta_to_float_days_def h
        u_datetime_delta_to_float_days_char formula_days_def)
  have fz: "parse_datetimestr_delta_to_float_days ''P0Y0M0DT0H0M0S'' = Inr 0"
    by (simp add: parse_datetimestr_delta_to_float_days_def z zero_delta_def
        u_datetime_delta_to_float_days_char formula_days_def)
  show ?thesis
    using h z fy fh fz by (simp add: u_datetime_delta_to_float_days_char)
qed

section \<open>parse\_as\_number\_or\_datetime\<close>

lemma u_parse_datetime_delta_error: "u_parse_datetime_delta s = Inl e \<Longrightarrow> e = ValueError"
proof (cases "delta_halves s")
  case None
  then show "u_parse_datetime_delta s = Inl e \<Longrightarrow> e = ValueError"
    by (simp add: u_parse_datetime_delta_def)
next
  case (Some p)
  obtain ds ts where "p = (ds, ts)" by (cases p)
  with Some have "delta_halves s = Some (ds, ts)" by simp
  from u_parse_datetime_delta_halves [OF this]
  show "u_parse_datetime_delta s = Inl e \<Longrightarrow> e = ValueError"
    by (simp split: if_splits)
qed

lemma except_ValueError_simps:
  "except_ValueError (Inr v) h = Inr v"
  "except_ValueError (Inl ValueError) h = h"
  "e \<noteq> ValueError \<Longrightarrow> except_ValueError (Inl e) h = Inl e"
  by (cases e; simp add: except_ValueError_def)+

text \<open>
  The sibling \<open>parse_as_number_or_partial_datetime\<close> does try the four parsers in order:
  when \<open>float\<close> and \<open>dateutil\<close> raise nothing but \<open>ValueError\<close> on the string, the result is
  the first success, and the uniform error when all four fail.
\<close>

lemma parse_as_number_or_partial_datetime_order:
  assumes fl: "\<And>e. py_float lib s = Inl e \<Longrightarrow> e = ValueError"
    and du: "\<And>e. du_parse lib s = Inl e \<Longrightarrow> e = ValueError"
  shows "parse_as_number_or_partial_datetime lib s =
     (case py_int s of
        Inr i \<Rightarrow> Inr (PyInt i)
      | Inl e1 \<Rightarrow>
          (case py_float lib s of
             Inr f \<Rightarrow> Inr (PyFloat f)
           | Inl e2 \<Rightarrow>
               (case du_parse lib s of
                  Inr d \<Rightarrow> Inr (PyDatetime d)
                | Inl e3 \<Rightarrow>
                    (case u_parse_datetime_delta s of
                       Inr dl \<Rightarrow> Inr (PyDelta dl)
                     | Inl e4 \<Rightarrow> Inl (not_a_valid_value s)))))"
proof -
  have 1: "py_int s = Inl ValueError" if "py_int s = Inl e" for e
    using that py_int_error by blast
  have 2: "py_float lib s = Inl ValueError" if "py_float lib s = Inl e" for e
    using that fl by blast
  have 3: "du_parse lib s = Inl ValueError" if "du_parse lib s = Inl e" for e
    using that du by blast
  have 4: "u_parse_datetime_delta s = Inl ValueError" if "u_parse_datetime_delta s = Inl e" for e
    using that u_parse_datetime_delta_error by blast
  show ?thesis
  proof (cases "py_int s")
    case (Inr i)
    then show ?thesis
      by (simp add: parse_as_number_or_partial_datetime_def except_ValueError_simps)
  next
    case a: (Inl e1)
    show ?thesis
    proof (cases "py_float lib s")
      case (Inr f)
      then show ?thesis
        by (simp add: parse_as_number_or_partial_datetime_def 1 [OF a] a
            except_ValueError_simps)
    next
      case b: (Inl e2)
      show ?thesis
      proof (cases "du_parse lib s")
        case (Inr d)
        then show ?thesis
          by (simp add: parse_as_number_or_partial_datetime_def u_parse_datetime_def
              1 [OF a] 2 [OF b] except_ValueError_simps)
      next
        case c: (Inl e3)
        show ?thesis
        proof (cases "u_parse_datetime_delta s")
          case (Inr dl)
          then show ?thesis
            by (simp add: parse_as_number_or_partial_datetime_def u_parse_datetime_def
                1 [OF a] 2 [OF b] 3 [OF c] except_ValueError_simps)
        next
          case d: (Inl e4)
          show ?thesis
            by (simp add: parse_as_number_or_partial_datetime_def u_parse_datetime_def
                1 [OF a] 2 [OF b] 3 [OF c] 4 [OF d] except_ValueError_simps)
        qed
      qed
    qed
  qed
qed


subsection \<open>C4: the coercion that reads an unbound name\<close>

text \<open>
  C4 says that the coercion tries the parsers in order and ends with a value or the
  uniform error, never with another exception.  \<open>parse_as_number_or_datetime\<close> reads
  \<open>in_string\<close> at line 200, a name that is bound nowhere (the parameter is \<open>string\<close>): for
  every input it raises \<open>NameError\<close> before any parser is tried.
\<close>

theorem parse_as_number_or_datetime_NameError:
  "parse_as_number_or_datetime lib string = Inl NameError"
  by (simp add: parse_as_number_or_datetime_def load_name_def)

end
